theory Spec2Isabelle
  imports Main
begin

section \<open>Data model (types/auth.ts)\<close>

text \<open>
  The \<open>User\<close> interface. Optional fields (\<open>email?\<close>, \<open>display_name?\<close>, \<open>created_at?\<close>)
  are options; \<open>ui_features\<close> is a \<open>Record\<close> from string to boolean, a partial map from
  feature keys to booleans. The field \<open>id\<close> is named \<open>id_field\<close>, since \<open>id\<close> is the
  identity function of HOL.
\<close>

record User =
  id_field :: int
  username :: string
  email :: "string option"
  display_name :: "string option"
  is_active :: bool
  created_at :: "string option"
  ui_theme :: string
  ui_sidebar :: bool
  ui_navbar :: bool
  ui_font_scale :: string
  ui_simple_mode :: bool
  ui_features :: "string \<rightharpoonup> bool"

section \<open>Rejected requests\<close>

text \<open>
  What the \<open>catch (err: any)\<close> blocks of context/AuthContext.tsx read from a thrown
  value: \<open>err?.response?.status\<close>, \<open>err?.response?.data?.detail\<close> and \<open>err.message\<close>.
  A rejected axios request carries a response when the server answered and none when
  the request never got an answer; a plain \<open>new Error(msg)\<close> has no response.
  \<open>detail\<close> is taken to be a string when present (the state it is stored in is
  \<open>string | null\<close>).
\<close>

record err_data =
  detail :: "string option"

record err_response =
  status :: int
  data :: "err_data option"

record js_error =
  response :: "err_response option"
  message :: string

definition Error :: "string \<Rightarrow> js_error" where
  "Error msg = \<lparr>response = None, message = msg\<rparr>"

text \<open>\<open>err?.response?.data?.detail\<close>: undefined as soon as one link is missing.\<close>

definition response_detail :: "js_error \<Rightarrow> string option" where
  "response_detail err =
     (case response err of
        None \<Rightarrow> None
      | Some r \<Rightarrow> (case data r of None \<Rightarrow> None | Some d \<Rightarrow> detail d))"

text \<open>
  JavaScript's \<open>a || b\<close> on values that are a string or undefined: \<open>undefined\<close> and the
  empty string are falsy, every other string is truthy.
\<close>

definition truthy :: "string option \<Rightarrow> bool" where
  "truthy v = (case v of None \<Rightarrow> False | Some s \<Rightarrow> s \<noteq> [])"

definition js_or :: "string option \<Rightarrow> string option \<Rightarrow> string option" where
  "js_or a b = (if truthy a then a else b)"

text \<open>\<open>err?.response?.data?.detail || err.message || fallback\<close>\<close>

definition error_text :: "js_error \<Rightarrow> string \<Rightarrow> string option" where
  "error_text err fallback =
     js_or (js_or (response_detail err) (Some (message err))) (Some fallback)"

text \<open>\<open>err?.response?.status && err.response.status !== 401\<close>; the number 0 is falsy.\<close>

definition status_not_401 :: "js_error \<Rightarrow> bool" where
  "status_not_401 err =
     (case response err of
        None \<Rightarrow> False
      | Some r \<Rightarrow> status r \<noteq> 0 \<and> status r \<noteq> 401)"

section \<open>Session state (AuthProvider)\<close>

record session =
  user :: "User option"
  loading :: bool
  error :: "string option"
  theme :: string

text \<open>The four \<open>useState\<close> initial values.\<close>

definition initial :: session where
  "initial = \<lparr>user = None, loading = True, error = None, theme = ''theme-light''\<rparr>"

text \<open>
  The operations never read the state: they only call the four setters. An operation
  is modelled by its result together with the setter calls it makes, in program
  order; \<open>commit\<close> applies them to a state.
\<close>

datatype setter =
    SetUser "User option"
  | SetLoading bool
  | SetError "string option"
  | SetTheme string

fun apply_setter :: "setter \<Rightarrow> session \<Rightarrow> session" where
  "apply_setter (SetUser u) s = s\<lparr>user := u\<rparr>"
| "apply_setter (SetLoading b) s = s\<lparr>loading := b\<rparr>"
| "apply_setter (SetError e) s = s\<lparr>error := e\<rparr>"
| "apply_setter (SetTheme t) s = s\<lparr>theme := t\<rparr>"

definition commit :: "setter list \<Rightarrow> session \<Rightarrow> session" where
  "commit ws s = fold apply_setter ws s"

subsection \<open>fetchMe\<close>

text \<open>
  The argument is the outcome of \<open>axiosClient.get<User>("/auth/me")\<close>: \<open>Inr resp_data\<close>
  when it resolves with \<open>resp.data = resp_data\<close>, \<open>Inl err\<close> when it rejects with \<open>err\<close>.
\<close>

definition fetchMe :: "js_error + User \<Rightarrow> User option \<times> setter list" where
  "fetchMe resp =
     (case resp of
        Inr resp_data \<Rightarrow>
          (Some resp_data,
           [SetLoading True, SetError None, SetUser (Some resp_data)]
           @ (if ui_theme resp_data \<noteq> []
              then [SetTheme (ui_theme resp_data)] else [])
           @ [SetLoading False])
      | Inl err \<Rightarrow>
          (None,
           [SetLoading True, SetError None, SetUser None]
           @ (if status_not_401 err
              then [SetError (error_text err ''Failed to fetch user'')] else [])
           @ [SetLoading False]))"

subsection \<open>login\<close>

text \<open>
  The arguments \<open>uname\<close> and \<open>pword\<close> are the source's \<open>username\<close> and \<open>password\<close>.
  \<open>post_login uname pword\<close> is the outcome of
  \<open>axiosClient.post("/auth/login", { username, password })\<close>, whose body is ignored;
  \<open>me\<close> is the outcome of the request that the nested \<open>fetchMe()\<close> makes, which is only
  sent when the POST resolved. The result is \<open>Inl err\<close> when \<open>login\<close> throws \<open>err\<close>.
\<close>

definition login_catch :: "js_error \<Rightarrow> setter list" where
  "login_catch err = [SetUser None, SetError (error_text err ''Login failed'')]"

definition login ::
  "(string \<Rightarrow> string \<Rightarrow> js_error + unit) \<Rightarrow> js_error + User \<Rightarrow> string \<Rightarrow> string
     \<Rightarrow> (js_error + User) \<times> setter list" where
  "login post_login me uname pword =
     (case post_login uname pword of
        Inl err \<Rightarrow>
          (Inl err,
           [SetLoading True, SetError None] @ login_catch err @ [SetLoading False])
      | Inr _ \<Rightarrow>
          (case fetchMe me of
             (None, ws) \<Rightarrow>
               (Inl (Error ''Login succeeded but failed to load user''),
                [SetLoading True, SetError None] @ ws
                @ login_catch (Error ''Login succeeded but failed to load user'')
                @ [SetLoading False])
           | (Some u, ws) \<Rightarrow>
               (Inr u, [SetLoading True, SetError None] @ ws @ [SetLoading False])))"

subsection \<open>logout\<close>

definition logout :: "js_error + unit \<Rightarrow> (js_error + unit) \<times> setter list" where
  "logout post_logout =
     (case post_logout of
        Inr _ \<Rightarrow>
          (Inr (),
           [SetLoading True, SetError None, SetUser None, SetTheme ''theme-light'',
            SetLoading False])
      | Inl err \<Rightarrow>
          (Inl err,
           [SetLoading True, SetError None, SetError (error_text err ''Logout failed''),
            SetLoading False]))"

subsection \<open>Sequences of operations\<close>

text \<open>
  A call of one of the three operations together with what the backend answered.
  A caller catches what \<open>login\<close> and \<open>logout\<close> throw (app/(auth)/login/page.tsx,
  components/Navbar.tsx), so a sequence goes on after a failed call.
\<close>

datatype action =
    FetchMe "js_error + User"
  | Login "string \<Rightarrow> string \<Rightarrow> js_error + unit" "js_error + User" string string
  | Logout "js_error + unit"

fun setters_of :: "action \<Rightarrow> setter list" where
  "setters_of (FetchMe resp) = snd (fetchMe resp)"
| "setters_of (Login post_login me uname pword) = snd (login post_login me uname pword)"
| "setters_of (Logout post_logout) = snd (logout post_logout)"

definition step :: "session \<Rightarrow> action \<Rightarrow> session" where
  "step s a = commit (setters_of a) s"

definition run :: "action list \<Rightarrow> session" where
  "run acts = foldl step initial acts"

section \<open>Route guard (app/ClientShell.tsx)\<close>

definition publicRoutes :: "string list" where
  "publicRoutes = [''/login'', ''/register'', ''/'', ''/public'']"

text \<open>\<open>String.prototype.startsWith\<close>\<close>

definition startsWith :: "string \<Rightarrow> string \<Rightarrow> bool" where
  "startsWith s p = (take (length p) s = p)"

definition isPublic :: "string \<Rightarrow> bool" where
  "isPublic pathname =
     list_ex (\<lambda>route. pathname = route \<or> startsWith pathname (route @ ''/'')) publicRoutes"

text \<open>
  What \<open>ClientShell\<close> returns: the loading placeholder, the children alone, or the
  shell, whose \<open>aside\<close> (holding the sidebar) and \<open>header\<close> (holding the navbar) are
  each present or not and whose \<open>main\<close> holds the children. The test
  \<open>isPublic || !user\<close> fails exactly when the route is not public and a user is there.
\<close>

datatype 'c view =
    LoadingPlaceholder
  | Passthrough 'c
  | Shell (aside: bool) (header: bool) (main: 'c)

definition ClientShell :: "session \<Rightarrow> string \<Rightarrow> 'c \<Rightarrow> 'c view" where
  "ClientShell ctx pathname children =
     (if loading ctx then LoadingPlaceholder
      else (case (isPublic pathname, user ctx) of
              (False, Some u) \<Rightarrow>
                Shell (ui_sidebar u \<noteq> False) (ui_navbar u \<noteq> False) children
            | _ \<Rightarrow> Passthrough children))"

section \<open>Sidebar (components/Sidebar.tsx)\<close>

record nav_link =
  href :: string
  label :: string
  key :: string

definition links :: "nav_link list" where
  "links =
     [\<lparr>href = ''/dashboard'', label = ''Dashboard'', key = ''dashboard''\<rparr>,
      \<lparr>href = ''/intake'', label = ''Intake'', key = ''intake''\<rparr>,
      \<lparr>href = ''/blocks'', label = ''Blocks'', key = ''blocks''\<rparr>,
      \<lparr>href = ''/reports'', label = ''Reports'', key = ''reports''\<rparr>]"

text \<open>
  \<open>user?.ui_simple_mode\<close> is falsy without a user; \<open>user?.ui_features?.[l.key]\<close> is
  truthy only when the key is mapped to \<open>true\<close>. Each entry of \<open>links\<close> is mapped to
  \<open>null\<close> or to its \<open>Link\<close>.
\<close>

definition suppressed :: "User option \<Rightarrow> nav_link \<Rightarrow> bool" where
  "suppressed usr l =
     (case usr of
        None \<Rightarrow> False
      | Some u \<Rightarrow> ui_simple_mode u \<and> \<not> (ui_features u (key l) = Some True))"

definition Sidebar :: "User option \<Rightarrow> nav_link option list" where
  "Sidebar usr = map (\<lambda>l. if suppressed usr l then None else Some l) links"

section \<open>Concrete inputs\<close>

text \<open>Users, rejected requests and endpoints on which the theorems are evaluated.\<close>

definition alice :: User where
  "alice =
     \<lparr>id_field = 1, username = ''alice'', email = None, display_name = None,
      is_active = True, created_at = None, ui_theme = ''theme-dark'', ui_sidebar = True,
      ui_navbar = True, ui_font_scale = ''100'', ui_simple_mode = False,
      ui_features = Map.empty\<rparr>"

definition no_theme_user :: User where
  "no_theme_user = alice\<lparr>ui_theme := []\<rparr>"

definition simple_user :: User where
  "simple_user =
     alice\<lparr>ui_simple_mode := True,
           ui_features := [''blocks'' \<mapsto> False, ''reports'' \<mapsto> True]\<rparr>"

definition bare_user :: User where
  "bare_user = alice\<lparr>ui_sidebar := False, ui_navbar := False\<rparr>"

definition bad_credentials :: js_error where
  "bad_credentials =
     \<lparr>response = Some \<lparr>status = 401, data = Some \<lparr>detail = Some ''bad credentials''\<rparr>\<rparr>,
      message = ''Request failed with status code 401''\<rparr>"

definition server_error :: js_error where
  "server_error =
     \<lparr>response = Some \<lparr>status = 500, data = None\<rparr>,
      message = ''Request failed with status code 500''\<rparr>"

definition network_error :: js_error where
  "network_error = \<lparr>response = None, message = ''Network Error''\<rparr>"

definition resolves :: "string \<Rightarrow> string \<Rightarrow> js_error + unit" where
  "resolves uname pword = Inr ()"

definition rejects :: "js_error \<Rightarrow> string \<Rightarrow> string \<Rightarrow> js_error + unit" where
  "rejects err uname pword = Inl err"

section \<open>Auxiliary facts\<close>

lemma commit_Nil: "commit [] s = s"
  by (simp add: commit_def)

lemma commit_Cons: "commit (w # ws) s = commit ws (apply_setter w s)"
  by (simp add: commit_def)

lemma commit_append: "commit (ws @ vs) s = commit vs (commit ws s)"
  by (simp add: commit_def)

lemmas commit_simps = commit_Nil commit_Cons commit_append

lemma error_text_cases:
  "error_text err fallback =
     (if truthy (response_detail err) then response_detail err
      else if message err \<noteq> [] then Some (message err)
      else Some fallback)"
  by (simp add: error_text_def js_or_def truthy_def)

lemma error_text_nonempty:
  "fallback \<noteq> [] \<Longrightarrow> \<exists>m. error_text err fallback = Some m \<and> m \<noteq> []"
  by (auto simp: error_text_cases truthy_def split: option.splits)

text \<open>The state after each operation, one equation for each path through its code.\<close>

lemma step_FetchMe_ok:
  "step s (FetchMe (Inr u)) =
     s\<lparr>user := Some u, loading := False, error := None,
       theme := (if ui_theme u = [] then theme s else ui_theme u)\<rparr>"
  by (simp add: step_def fetchMe_def commit_simps)

lemma step_FetchMe_fail:
  "step s (FetchMe (Inl err)) =
     s\<lparr>user := None, loading := False,
       error := (if status_not_401 err then error_text err ''Failed to fetch user''
                 else None)\<rparr>"
  by (simp add: step_def fetchMe_def commit_simps)

lemma step_Login_reject:
  "post_login uname pword = Inl err \<Longrightarrow>
   step s (Login post_login me uname pword) =
     s\<lparr>user := None, loading := False, error := error_text err ''Login failed''\<rparr>"
  by (simp add: step_def login_def login_catch_def commit_simps)

lemma step_Login_no_user:
  "post_login uname pword = Inr () \<Longrightarrow>
   step s (Login post_login (Inl err) uname pword) =
     s\<lparr>user := None, loading := False,
       error := Some ''Login succeeded but failed to load user''\<rparr>"
  by (simp add: step_def login_def login_catch_def fetchMe_def commit_simps
      error_text_cases Error_def response_detail_def truthy_def)

lemma step_Login_ok:
  "post_login uname pword = Inr () \<Longrightarrow>
   step s (Login post_login (Inr u) uname pword) =
     s\<lparr>user := Some u, loading := False, error := None,
       theme := (if ui_theme u = [] then theme s else ui_theme u)\<rparr>"
  by (simp add: step_def login_def fetchMe_def commit_simps)

lemma step_Logout_ok:
  "step s (Logout (Inr x)) =
     s\<lparr>user := None, loading := False, error := None, theme := ''theme-light''\<rparr>"
  by (simp add: step_def logout_def commit_simps)

lemma step_Logout_fail:
  "step s (Logout (Inl err)) =
     s\<lparr>loading := False, error := error_text err ''Logout failed''\<rparr>"
  by (simp add: step_def logout_def commit_simps)

lemma run_snoc: "run (acts @ [a]) = step (run acts) a"
  by (simp add: run_def)

lemma fetchMe_result:
  "fst (fetchMe me) = (case me of Inl err \<Rightarrow> None | Inr u \<Rightarrow> Some u)"
  by (simp add: fetchMe_def split: sum.splits)

lemma login_result:
  "fst (login post_login me uname pword) =
     (case post_login uname pword of
        Inl err \<Rightarrow> Inl err
      | Inr x \<Rightarrow> (case me of
                   Inl err \<Rightarrow> Inl (Error ''Login succeeded but failed to load user'')
                 | Inr u \<Rightarrow> Inr u))"
  by (simp add: login_def fetchMe_def split: sum.splits)

text \<open>Every operation begins with \<open>setLoading(true); setError(null)\<close>.\<close>

lemma setters_of_start:
  "\<exists>rest. setters_of a = SetLoading True # SetError None # rest"
proof (cases a)
  case (FetchMe resp)
  then show ?thesis by (cases resp) (simp_all add: fetchMe_def)
next
  case (Login post_login me uname pword)
  then show ?thesis
    by (cases "post_login uname pword"; cases me) (simp_all add: login_def fetchMe_def)
next
  case (Logout post_logout)
  then show ?thesis by (cases post_logout) (simp_all add: logout_def)
qed

lemma error_apply_setter:
  "error s = error t \<Longrightarrow> error (apply_setter w s) = error (apply_setter w t)"
  by (cases w) simp_all

lemma error_commit:
  "error s = error t \<Longrightarrow> error (commit ws s) = error (commit ws t)"
proof (induction ws arbitrary: s t)
  case Nil
  then show ?case by (simp add: commit_Nil)
next
  case (Cons w ws)
  from Cons.prems have "error (apply_setter w s) = error (apply_setter w t)"
    by (rule error_apply_setter)
  then have "error (commit ws (apply_setter w s)) = error (commit ws (apply_setter w t))"
    by (rule Cons.IH)
  then show ?case by (simp only: commit_Cons)
qed

text \<open>The theme follows a present user whose \<open>ui_theme\<close> is not empty.\<close>

lemma theme_follows_step:
  assumes "\<forall>u. user s = Some u \<and> ui_theme u \<noteq> [] \<longrightarrow> theme s = ui_theme u"
  shows "\<forall>u. user (step s a) = Some u \<and> ui_theme u \<noteq> [] \<longrightarrow> theme (step s a) = ui_theme u"
proof (cases a)
  case (FetchMe resp)
  with assms show ?thesis
    by (cases resp) (simp_all add: step_FetchMe_ok step_FetchMe_fail)
next
  case (Login post_login me uname pword)
  with assms show ?thesis
    by (cases "post_login uname pword"; cases me)
       (simp_all add: step_Login_reject step_Login_no_user step_Login_ok)
next
  case (Logout post_logout)
  with assms show ?thesis
    by (cases post_logout) (simp_all add: step_Logout_ok step_Logout_fail)
qed

lemma theme_follows_run:
  "\<forall>u. user (run acts) = Some u \<and> ui_theme u \<noteq> [] \<longrightarrow> theme (run acts) = ui_theme u"
proof (induction acts rule: rev_induct)
  case Nil
  show ?case by (simp add: run_def initial_def)
next
  case (snoc a acts)
  then show ?case unfolding run_snoc by (rule theme_follows_step)
qed

lemma startsWith_iff: "startsWith s p \<longleftrightarrow> (\<exists>rest. s = p @ rest)"
proof
  assume "startsWith s p"
  then have "s = p @ drop (length p) s"
    by (metis append_take_drop_id startsWith_def)
  then show "\<exists>rest. s = p @ rest" ..
next
  assume "\<exists>rest. s = p @ rest"
  then show "startsWith s p"
    by (auto simp: startsWith_def)
qed

lemma isPublic_login_reset: "isPublic ''/login/reset''"
  by (simp add: isPublic_def publicRoutes_def startsWith_def)

lemma not_isPublic_dashboard: "\<not> isPublic ''/dashboard''"
  by (simp add: isPublic_def publicRoutes_def startsWith_def)

section \<open>Session store: login\<close>

text \<open>
  C1 (as amended). For every execution of \<open>login\<close> in which the POST to the login
  endpoint succeeds and the identity fetch that follows succeeds with an identity,
  \<open>login\<close> returns that identity and the session state afterwards has
  \<open>loading = false\<close>, no error and the fetched identity; the theme is the identity's
  \<open>ui_theme\<close> when that string is not empty, and is left as it was when
  \<open>ui_theme\<close> is empty (\<open>if (resp.data.ui_theme) setTheme(...)\<close>).
\<close>

theorem login_success_state:
  assumes "post_login uname pword = Inr ()"
  shows "fst (login post_login (Inr u) uname pword) = Inr u
    \<and> loading (step s (Login post_login (Inr u) uname pword)) = False
    \<and> error (step s (Login post_login (Inr u) uname pword)) = None
    \<and> user (step s (Login post_login (Inr u) uname pword)) = Some u
    \<and> theme (step s (Login post_login (Inr u) uname pword)) =
           (if ui_theme u = [] then theme s else ui_theme u)"
  using assms by (simp add: step_Login_ok) (simp add: login_def fetchMe_def)

theorem login_success_state_witness:
  "resolves ''alice'' ''pw'' = Inr ()
   \<and> fst (login resolves (Inr alice) ''alice'' ''pw'') = Inr alice
   \<and> step initial (Login resolves (Inr alice) ''alice'' ''pw'')
       = \<lparr>user = Some alice, loading = False, error = None, theme = ''theme-dark''\<rparr>"
proof -
  have h: "resolves ''alice'' ''pw'' = Inr ()" by (simp add: resolves_def)
  show ?thesis
    using h login_success_state [of resolves "''alice''" "''pw''" alice initial]
    by (cases "step initial (Login resolves (Inr alice) ''alice'' ''pw'')")
       (simp add: alice_def initial_def)
qed

text \<open>
  As first stated, the claim asks for \<open>theme = identity.ui_theme\<close> in every such
  execution. With an identity whose \<open>ui_theme\<close> is the empty string the POST and the
  fetch succeed, \<open>login\<close> returns the identity, and the theme stays \<open>theme-light\<close>.
\<close>

theorem login_theme_counterexample:
  "resolves ''alice'' ''pw'' = Inr ()
   \<and> fst (fetchMe (Inr no_theme_user)) = Some no_theme_user
   \<and> fst (login resolves (Inr no_theme_user) ''alice'' ''pw'') = Inr no_theme_user
   \<and> theme (step initial (Login resolves (Inr no_theme_user) ''alice'' ''pw''))
       = ''theme-light''
   \<and> theme (step initial (Login resolves (Inr no_theme_user) ''alice'' ''pw''))
       \<noteq> ui_theme no_theme_user"
  by (simp add: step_def login_def fetchMe_def commit_simps resolves_def no_theme_user_def
      initial_def)

text \<open>
  C4. \<open>login\<close> throws if and only if the POST to the login endpoint fails or the
  identity fetch that follows yields no identity. When the POST fails with \<open>err\<close>,
  \<open>login\<close> rethrows \<open>err\<close>, the identity is cleared and the error message is the
  server's \<open>detail\<close> when there is a non-empty one, else the error's own message when
  that is not empty, and in every case a non-empty message. When the POST succeeds and
  the fetch yields no identity, \<open>login\<close> throws the error
  \<open>Login succeeded but failed to load user\<close>, which is also the recorded message. In
  particular a 401 answer with \<open>detail = bad credentials\<close> makes \<open>login\<close> throw with
  \<open>error = bad credentials\<close> and no identity.
\<close>

theorem login_rejection:
  "(isl (fst (login post_login me uname pword)) \<longleftrightarrow>
      isl (post_login uname pword)
      \<or> (\<not> isl (post_login uname pword) \<and> fst (fetchMe me) = None))
   \<and> (\<forall>err. post_login uname pword = Inl err \<longrightarrow>
         fst (login post_login me uname pword) = Inl err
         \<and> user (step s (Login post_login me uname pword)) = None
         \<and> loading (step s (Login post_login me uname pword)) = False
         \<and> (\<forall>d. response_detail err = Some d \<and> d \<noteq> [] \<longrightarrow>
               error (step s (Login post_login me uname pword)) = Some d)
         \<and> (\<not> truthy (response_detail err) \<and> message err \<noteq> [] \<longrightarrow>
               error (step s (Login post_login me uname pword)) = Some (message err))
         \<and> (\<exists>m. error (step s (Login post_login me uname pword)) = Some m \<and> m \<noteq> []))
   \<and> (post_login uname pword = Inr () \<and> fst (fetchMe me) = None \<longrightarrow>
         fst (login post_login me uname pword)
           = Inl (Error ''Login succeeded but failed to load user'')
         \<and> user (step s (Login post_login me uname pword)) = None
         \<and> loading (step s (Login post_login me uname pword)) = False
         \<and> error (step s (Login post_login me uname pword))
             = Some ''Login succeeded but failed to load user'')
   \<and> (\<forall>msg. post_login uname pword
           = Inl \<lparr>response = Some \<lparr>status = 401,
                                   data = Some \<lparr>detail = Some ''bad credentials''\<rparr>\<rparr>,
                  message = msg\<rparr> \<longrightarrow>
         isl (fst (login post_login me uname pword))
         \<and> error (step s (Login post_login me uname pword)) = Some ''bad credentials''
         \<and> user (step s (Login post_login me uname pword)) = None)"
proof (intro conjI allI impI)
  show "isl (fst (login post_login me uname pword)) \<longleftrightarrow>
      isl (post_login uname pword)
      \<or> (\<not> isl (post_login uname pword) \<and> fst (fetchMe me) = None)"
    by (simp add: login_result fetchMe_result split: sum.splits)
next
  fix err assume "post_login uname pword = Inl err"
  then show "fst (login post_login me uname pword) = Inl err"
    by (simp add: login_result)
next
  fix err assume "post_login uname pword = Inl err"
  then show "user (step s (Login post_login me uname pword)) = None"
    by (simp add: step_Login_reject)
next
  fix err assume "post_login uname pword = Inl err"
  then show "loading (step s (Login post_login me uname pword)) = False"
    by (simp add: step_Login_reject)
next
  fix err d
  assume "post_login uname pword = Inl err" "response_detail err = Some d \<and> d \<noteq> []"
  then show "error (step s (Login post_login me uname pword)) = Some d"
    by (simp add: step_Login_reject error_text_cases truthy_def)
next
  fix err
  assume "post_login uname pword = Inl err"
    "\<not> truthy (response_detail err) \<and> message err \<noteq> []"
  then show "error (step s (Login post_login me uname pword)) = Some (message err)"
    by (simp add: step_Login_reject error_text_cases)
next
  fix err assume "post_login uname pword = Inl err"
  moreover have "\<exists>m. error_text err ''Login failed'' = Some m \<and> m \<noteq> []"
    by (rule error_text_nonempty) simp
  ultimately show "\<exists>m. error (step s (Login post_login me uname pword)) = Some m \<and> m \<noteq> []"
    by (simp add: step_Login_reject)
next
  assume a: "post_login uname pword = Inr () \<and> fst (fetchMe me) = None"
  then obtain err where me: "me = Inl err"
    by (cases me) (simp_all add: fetchMe_result)
  from a me show "fst (login post_login me uname pword)
           = Inl (Error ''Login succeeded but failed to load user'')"
    by (simp add: login_result)
  from a me show "user (step s (Login post_login me uname pword)) = None"
    by (simp add: step_Login_no_user)
  from a me show "loading (step s (Login post_login me uname pword)) = False"
    by (simp add: step_Login_no_user)
  from a me show "error (step s (Login post_login me uname pword))
             = Some ''Login succeeded but failed to load user''"
    by (simp add: step_Login_no_user)
next
  fix msg
  assume a: "post_login uname pword
           = Inl \<lparr>response = Some \<lparr>status = 401,
                                   data = Some \<lparr>detail = Some ''bad credentials''\<rparr>\<rparr>,
                  message = msg\<rparr>"
  then show "isl (fst (login post_login me uname pword))"
    by (simp add: login_result)
  from a show "error (step s (Login post_login me uname pword)) = Some ''bad credentials''"
    by (simp add: step_Login_reject error_text_cases response_detail_def truthy_def)
  from a show "user (step s (Login post_login me uname pword)) = None"
    by (simp add: step_Login_reject)
qed

theorem login_rejection_witness:
  "rejects bad_credentials ''alice'' ''wrong'' = Inl bad_credentials
   \<and> isl (fst (login (rejects bad_credentials) (Inr alice) ''alice'' ''wrong''))
   \<and> error (step (initial\<lparr>user := Some alice\<rparr>)
              (Login (rejects bad_credentials) (Inr alice) ''alice'' ''wrong''))
       = Some ''bad credentials''
   \<and> user (step (initial\<lparr>user := Some alice\<rparr>)
              (Login (rejects bad_credentials) (Inr alice) ''alice'' ''wrong'')) = None
   \<and> resolves ''alice'' ''pw'' = Inr () \<and> fst (fetchMe (Inl server_error)) = None
   \<and> fst (login resolves (Inl server_error) ''alice'' ''pw'')
       = Inl (Error ''Login succeeded but failed to load user'')
   \<and> error (step initial (Login resolves (Inl server_error) ''alice'' ''pw''))
       = Some ''Login succeeded but failed to load user''
   \<and> \<not> isl (fst (login resolves (Inr alice) ''alice'' ''pw''))"
proof -
  have h1: "rejects bad_credentials ''alice'' ''wrong''
      = Inl \<lparr>response = Some \<lparr>status = 401,
                               data = Some \<lparr>detail = Some ''bad credentials''\<rparr>\<rparr>,
              message = ''Request failed with status code 401''\<rparr>"
    by (simp add: rejects_def bad_credentials_def)
  have h2: "resolves ''alice'' ''pw'' = Inr ()"
    by (simp add: resolves_def)
  have h3: "fst (fetchMe (Inl server_error)) = None"
    by (simp add: fetchMe_def)
  have h4: "fst (fetchMe (Inr alice)) \<noteq> None"
    by (simp add: fetchMe_def)
  show ?thesis
    using h1 h2 h3 h4
      login_rejection [of "rejects bad_credentials" "Inr alice" "''alice''" "''wrong''"
        "initial\<lparr>user := Some alice\<rparr>"]
      login_rejection [of resolves "Inl server_error" "''alice''" "''pw''" initial]
      login_rejection [of resolves "Inr alice" "''alice''" "''pw''" initial]
    by (simp add: bad_credentials_def)
qed

section \<open>Session store: fetchMe\<close>

text \<open>
  What \<open>fetchMe\<close> does on every rejected request, from every state: it returns no
  identity, clears the identity and ends with \<open>loading\<close> false. The error stays absent
  on a 401 response, is a non-empty message on a response with another (non-zero)
  status, and stays absent when the rejection carries no response at all.
\<close>

lemma fetchMe_rejected_state:
  "fst (fetchMe (Inl err)) = None
   \<and> user (step s (FetchMe (Inl err))) = None
   \<and> loading (step s (FetchMe (Inl err))) = False
   \<and> (\<forall>r. response err = Some r \<and> status r = 401 \<longrightarrow>
         error (step s (FetchMe (Inl err))) = None)
   \<and> (\<forall>r. response err = Some r \<and> status r \<noteq> 0 \<and> status r \<noteq> 401 \<longrightarrow>
         (\<exists>m. error (step s (FetchMe (Inl err))) = Some m \<and> m \<noteq> []))
   \<and> (response err = None \<longrightarrow> error (step s (FetchMe (Inl err))) = None)"
proof -
  have "\<exists>m. error_text err ''Failed to fetch user'' = Some m \<and> m \<noteq> []"
    by (rule error_text_nonempty) simp
  then show ?thesis
    by (auto simp: step_FetchMe_fail status_not_401_def fetchMe_def)
qed

text \<open>
  C2. The claim: when the request of \<open>fetchMe\<close> fails with an authentication failure,
  the identity becomes absent and the error stays absent; when it fails in any other
  way, the identity becomes absent and the error is set to a message. The code at a
  request rejected without a response (\<open>Network Error\<close>, the server was not reached),
  with alice logged in and a 401 for comparison: in both cases the identity is cleared
  and \<open>loading\<close> ends false, and in both cases the error is absent, so the network
  failure is not reported. The test \<open>err?.response?.status && ...\<close> is false without a
  status, while the comment above it names only the 401 as swallowed; \<open>login\<close> and
  \<open>logout\<close> record \<open>err.message\<close> for the same rejection.
\<close>

theorem fetchMe_network_error_unreported:
  "response network_error = None
   \<and> message network_error = ''Network Error''
   \<and> fst (fetchMe (Inl network_error)) = None
   \<and> user (step (initial\<lparr>user := Some alice\<rparr>) (FetchMe (Inl network_error))) = None
   \<and> loading (step (initial\<lparr>user := Some alice\<rparr>) (FetchMe (Inl network_error))) = False
   \<and> error (step (initial\<lparr>user := Some alice\<rparr>) (FetchMe (Inl network_error))) = None
   \<and> user (step (initial\<lparr>user := Some alice\<rparr>) (FetchMe (Inl bad_credentials))) = None
   \<and> error (step (initial\<lparr>user := Some alice\<rparr>) (FetchMe (Inl bad_credentials))) = None
   \<and> error (step (initial\<lparr>user := Some alice\<rparr>) (FetchMe (Inl server_error)))
       = Some ''Request failed with status code 500''
   \<and> error (step (initial\<lparr>user := Some alice\<rparr>)
              (Login (rejects network_error) (Inr alice) ''alice'' ''pw''))
       = Some ''Network Error''
   \<and> error (step (initial\<lparr>user := Some alice\<rparr>) (Logout (Inl network_error)))
       = Some ''Network Error''"
proof -
  have r: "rejects network_error ''alice'' ''pw'' = Inl network_error"
    by (simp add: rejects_def)
  have t: "error_text network_error ''Login failed'' = Some ''Network Error''"
    "error_text network_error ''Logout failed'' = Some ''Network Error''"
    "error_text server_error ''Failed to fetch user''
       = Some ''Request failed with status code 500''"
    by (simp_all add: error_text_cases response_detail_def truthy_def network_error_def
        server_error_def)
  have n: "\<not> status_not_401 network_error" "\<not> status_not_401 bad_credentials"
    "status_not_401 server_error"
    by (simp_all add: status_not_401_def network_error_def bad_credentials_def
        server_error_def)
  have f: "response network_error = None" "message network_error = ''Network Error''"
    by (simp_all add: network_error_def)
  show ?thesis
    using r t n f
    by (simp add: step_FetchMe_fail step_Login_reject step_Logout_fail fetchMe_def)
qed

section \<open>Session store: logout\<close>

text \<open>
  C5 (as amended). For every sequence of session store operations from the initial
  state that ends in a \<open>logout\<close> call, the final state has \<open>loading = false\<close>. When the
  logout request succeeded, the identity is absent, the theme is the default
  \<open>theme-light\<close> and the error is absent. When the logout request failed, the failure is
  rethrown and a non-empty error message is recorded, and the identity and the theme
  are left as they were before the call.
\<close>

theorem logout_final_state:
  "loading (run (acts @ [Logout r])) = False
   \<and> (r = Inr () \<longrightarrow>
        fst (logout r) = Inr ()
        \<and> user (run (acts @ [Logout r])) = None
        \<and> theme (run (acts @ [Logout r])) = ''theme-light''
        \<and> error (run (acts @ [Logout r])) = None)
   \<and> (\<forall>err. r = Inl err \<longrightarrow>
        fst (logout r) = Inl err
        \<and> (\<exists>m. error (run (acts @ [Logout r])) = Some m \<and> m \<noteq> [])
        \<and> user (run (acts @ [Logout r])) = user (run acts)
        \<and> theme (run (acts @ [Logout r])) = theme (run acts))"
proof (cases r)
  case (Inl err)
  have "\<exists>m. error_text err ''Logout failed'' = Some m \<and> m \<noteq> []"
    by (rule error_text_nonempty) simp
  with Inl show ?thesis
    by (simp add: run_snoc step_Logout_fail logout_def)
next
  case (Inr x)
  then show ?thesis
    by (simp add: run_snoc step_Logout_ok logout_def)
qed

theorem logout_final_state_witness:
  "run ([FetchMe (Inr alice)] @ [Logout (Inr ())])
     = \<lparr>user = None, loading = False, error = None, theme = ''theme-light''\<rparr>
   \<and> fst (logout (Inl network_error)) = Inl network_error
   \<and> loading (run ([FetchMe (Inr alice)] @ [Logout (Inl network_error)])) = False
   \<and> error (run ([FetchMe (Inr alice)] @ [Logout (Inl network_error)])) \<noteq> None"
  using logout_final_state [of "[FetchMe (Inr alice)]" "Inr ()"]
    logout_final_state [of "[FetchMe (Inr alice)]" "Inl network_error"]
  by (cases "run ([FetchMe (Inr alice)] @ [Logout (Inr ())])") auto

text \<open>
  As first stated, the claim asks for an absent identity and the default theme after
  every \<open>logout\<close> call. After a fetch that found alice, a \<open>logout\<close> whose request fails
  leaves alice and her theme in place: \<open>setUser(null)\<close> and \<open>setTheme\<close> come after the
  awaited POST inside the \<open>try\<close> block.
\<close>

theorem failed_logout_counterexample:
  "user (run [FetchMe (Inr alice), Logout (Inl network_error)]) = Some alice
   \<and> user (run [FetchMe (Inr alice), Logout (Inl network_error)]) \<noteq> None
   \<and> theme (run [FetchMe (Inr alice), Logout (Inl network_error)]) = ''theme-dark''
   \<and> theme (run [FetchMe (Inr alice), Logout (Inl network_error)]) \<noteq> ''theme-light''"
  by (simp add: run_def step_FetchMe_ok step_Logout_fail alice_def)

section \<open>Session store: invariants\<close>

text \<open>
  C3 (as amended). In the initial state the identity is absent and the theme is the
  default \<open>theme-light\<close>. After every sequence of session store operations from the
  initial state, whenever an identity is present and its \<open>ui_theme\<close> is not empty, the
  theme equals that \<open>ui_theme\<close>. After every sequence that ends in a successful
  \<open>logout\<close>, the identity is absent and the theme is the default.
\<close>

theorem theme_invariant:
  "user initial = None \<and> theme initial = ''theme-light''
   \<and> (\<forall>u. user (run acts) = Some u \<and> ui_theme u \<noteq> [] \<longrightarrow> theme (run acts) = ui_theme u)
   \<and> user (run (acts @ [Logout (Inr ())])) = None
   \<and> theme (run (acts @ [Logout (Inr ())])) = ''theme-light''"
  using theme_follows_run [of acts]
  by (simp add: initial_def run_snoc step_Logout_ok)

theorem theme_invariant_witness:
  "user (run [FetchMe (Inl bad_credentials), Login resolves (Inr alice) ''alice'' ''pw''])
     = Some alice
   \<and> ui_theme alice \<noteq> []
   \<and> theme (run [FetchMe (Inl bad_credentials), Login resolves (Inr alice) ''alice'' ''pw''])
     = ''theme-dark''"
proof -
  have h: "user (run [FetchMe (Inl bad_credentials),
                      Login resolves (Inr alice) ''alice'' ''pw'']) = Some alice"
    by (simp add: run_def step_FetchMe_fail step_Login_ok resolves_def)
  have t: "ui_theme alice = ''theme-dark''"
    by (simp add: alice_def)
  show ?thesis
    using h t
      theme_invariant [of "[FetchMe (Inl bad_credentials),
                            Login resolves (Inr alice) ''alice'' ''pw'']"]
    by simp
qed

text \<open>
  As first stated, the claim asks for \<open>theme = identity.ui_theme\<close> whenever an identity
  is present. After a fetch that returns an identity with an empty \<open>ui_theme\<close> the
  identity is present and the theme is still \<open>theme-light\<close>.
\<close>

theorem theme_invariant_counterexample:
  "user (run [FetchMe (Inr no_theme_user)]) = Some no_theme_user
   \<and> theme (run [FetchMe (Inr no_theme_user)]) = ''theme-light''
   \<and> theme (run [FetchMe (Inr no_theme_user)]) \<noteq> ui_theme no_theme_user"
  by (simp add: run_def step_FetchMe_ok no_theme_user_def initial_def)

text \<open>
  C10. Each of the three operations begins by setting \<open>loading\<close> and clearing the
  error, before anything else; and the error in the state after an operation does not
  depend on the error that was there before it.
\<close>

theorem error_cleared_at_start:
  "take 2 (setters_of a) = [SetLoading True, SetError None]
   \<and> error (commit (take 2 (setters_of a)) s) = None
   \<and> error (step s a) = error (step (s\<lparr>error := e\<rparr>) a)"
proof -
  obtain rest where r: "setters_of a = SetLoading True # SetError None # rest"
    using setters_of_start by blast
  have "error (commit rest (s\<lparr>loading := True, error := None\<rparr>))
      = error (commit rest (s\<lparr>error := e, loading := True, error := None\<rparr>))"
    by (rule error_commit) simp
  with r show ?thesis
    by (simp add: step_def commit_Cons commit_Nil)
qed

theorem error_cleared_at_start_witness:
  "take 2 (setters_of (Logout (Inl network_error))) = [SetLoading True, SetError None]
   \<and> error (step initial (Logout (Inl network_error))) = Some ''Network Error''
   \<and> error (step (initial\<lparr>error := Some ''bad credentials''\<rparr>) (FetchMe (Inr alice))) = None"
proof -
  have "error (step initial (Logout (Inl network_error))) = Some ''Network Error''"
    by (simp add: step_Logout_fail error_text_cases response_detail_def truthy_def
        network_error_def)
  moreover have "error (step initial (FetchMe (Inr alice))) = None"
    by (simp add: step_FetchMe_ok)
  ultimately show ?thesis
    using error_cleared_at_start [of "Logout (Inl network_error)" initial None]
      error_cleared_at_start [of "FetchMe (Inr alice)" initial "Some ''bad credentials''"]
    by simp
qed

section \<open>Route guard\<close>

text \<open>
  C7. A route path is classified as public if and only if it equals one of the
  configured public routes or starts with one of them followed by \<open>/\<close>. When
  \<open>loading\<close> is false, the authenticated shell is rendered if and only if an identity
  is present and the route is not public; otherwise the children are passed through.
\<close>

theorem route_guard:
  "(isPublic pathname \<longleftrightarrow>
      (\<exists>route \<in> set publicRoutes.
         pathname = route \<or> (\<exists>rest. pathname = route @ ''/'' @ rest)))
   \<and> (\<not> loading ctx \<longrightarrow>
        ((\<exists>a h. ClientShell ctx pathname children = Shell a h children) \<longleftrightarrow>
           user ctx \<noteq> None \<and> \<not> isPublic pathname)
        \<and> (\<not> (user ctx \<noteq> None \<and> \<not> isPublic pathname) \<longrightarrow>
             ClientShell ctx pathname children = Passthrough children))"
proof (intro conjI impI)
  show "isPublic pathname \<longleftrightarrow>
      (\<exists>route \<in> set publicRoutes.
         pathname = route \<or> (\<exists>rest. pathname = route @ ''/'' @ rest))"
    by (simp add: isPublic_def list_ex_iff startsWith_iff)
next
  assume "\<not> loading ctx"
  then show "(\<exists>a h. ClientShell ctx pathname children = Shell a h children) \<longleftrightarrow>
           user ctx \<noteq> None \<and> \<not> isPublic pathname"
    by (cases "user ctx"; cases "isPublic pathname") (simp_all add: ClientShell_def)
next
  assume "\<not> loading ctx" "\<not> (user ctx \<noteq> None \<and> \<not> isPublic pathname)"
  then show "ClientShell ctx pathname children = Passthrough children"
    by (cases "user ctx"; cases "isPublic pathname") (simp_all add: ClientShell_def)
qed

theorem route_guard_witness:
  "\<not> loading (initial\<lparr>user := Some alice, loading := False\<rparr>)
   \<and> isPublic ''/login/reset''
   \<and> ClientShell (initial\<lparr>user := Some alice, loading := False\<rparr>) ''/login/reset'' ''page''
       = Passthrough ''page''
   \<and> \<not> isPublic ''/dashboard''
   \<and> ClientShell (initial\<lparr>user := Some alice, loading := False\<rparr>) ''/dashboard'' ''page''
       \<noteq> Passthrough ''page''
   \<and> ClientShell (initial\<lparr>loading := False\<rparr>) ''/dashboard'' ''page'' = Passthrough ''page''"
proof -
  have l: "\<not> loading (initial\<lparr>user := Some alice, loading := False\<rparr>)"
    "\<not> loading (initial\<lparr>loading := False\<rparr>)" "user (initial\<lparr>loading := False\<rparr>) = None"
    by (simp_all add: initial_def)
  show ?thesis
    using l isPublic_login_reset not_isPublic_dashboard
      route_guard [of "''/login/reset''" "initial\<lparr>user := Some alice, loading := False\<rparr>"
        "''page''"]
      route_guard [of "''/dashboard''" "initial\<lparr>user := Some alice, loading := False\<rparr>"
        "''page''"]
      route_guard [of "''/dashboard''" "initial\<lparr>loading := False\<rparr>" "''page''"]
    by auto
qed

text \<open>
  C8. Whenever \<open>loading\<close> is true, the route guard renders the loading placeholder,
  whatever the route and whether or not an identity is present.
\<close>

theorem loading_placeholder:
  "loading ctx \<Longrightarrow> ClientShell ctx pathname children = LoadingPlaceholder"
  by (simp add: ClientShell_def)

theorem loading_placeholder_witness:
  "loading (initial\<lparr>user := Some alice\<rparr>)
   \<and> ClientShell (initial\<lparr>user := Some alice\<rparr>) ''/dashboard'' ''page'' = LoadingPlaceholder"
proof -
  have h: "loading (initial\<lparr>user := Some alice\<rparr>)" by (simp add: initial_def)
  show ?thesis using h loading_placeholder [OF h] by simp
qed

text \<open>
  C9. In the authenticated shell (not loading, an identity present, the route not
  public) the sidebar region is rendered if and only if the identity's \<open>ui_sidebar\<close>
  is not \<open>false\<close>, the navbar region if and only if its \<open>ui_navbar\<close> is not \<open>false\<close>,
  and the main region holds the page content in every case.
\<close>

theorem shell_regions:
  assumes "\<not> loading ctx" and "user ctx = Some u" and "\<not> isPublic pathname"
  shows "ClientShell ctx pathname children
         = Shell (ui_sidebar u \<noteq> False) (ui_navbar u \<noteq> False) children
    \<and> (aside (ClientShell ctx pathname children) \<longleftrightarrow> ui_sidebar u \<noteq> False)
    \<and> (header (ClientShell ctx pathname children) \<longleftrightarrow> ui_navbar u \<noteq> False)
    \<and> main (ClientShell ctx pathname children) = children"
  using assms by (simp add: ClientShell_def)

theorem shell_regions_witness:
  "\<not> loading (step initial (FetchMe (Inr bare_user)))
   \<and> user (step initial (FetchMe (Inr bare_user))) = Some bare_user
   \<and> \<not> isPublic ''/dashboard''
   \<and> ui_sidebar bare_user = False \<and> ui_navbar bare_user = False
   \<and> ClientShell (step initial (FetchMe (Inr bare_user))) ''/dashboard'' ''page''
       = Shell False False ''page''
   \<and> ClientShell (step initial (FetchMe (Inr alice))) ''/dashboard'' ''page''
       = Shell True True ''page''"
proof -
  have h: "\<not> loading (step initial (FetchMe (Inr bare_user)))"
    "user (step initial (FetchMe (Inr bare_user))) = Some bare_user"
    "\<not> loading (step initial (FetchMe (Inr alice)))"
    "user (step initial (FetchMe (Inr alice))) = Some alice"
    by (simp_all add: step_FetchMe_ok)
  have f: "ui_sidebar bare_user = False" "ui_navbar bare_user = False"
    "ui_sidebar alice" "ui_navbar alice"
    by (simp_all add: bare_user_def alice_def)
  show ?thesis
    using h f not_isPublic_dashboard
      shell_regions [OF h(1) h(2) not_isPublic_dashboard, of "''page''"]
      shell_regions [OF h(3) h(4) not_isPublic_dashboard, of "''page''"]
    by simp
qed

section \<open>Sidebar\<close>

text \<open>
  C6. For every identity, the sidebar maps the fixed list of entries position by
  position, and an entry is suppressed if and only if the identity's
  \<open>ui_simple_mode\<close> is true and its feature map has no \<open>true\<close> value for the entry's
  key; an entry that is not suppressed is rendered as itself. When \<open>ui_simple_mode\<close> is
  false every entry is rendered, whatever the feature map.
\<close>

theorem sidebar_suppression:
  "length (Sidebar (Some u)) = length links
   \<and> (\<forall>i < length links.
        (Sidebar (Some u) ! i = None \<longleftrightarrow>
           ui_simple_mode u \<and> ui_features u (key (links ! i)) \<noteq> Some True)
        \<and> (Sidebar (Some u) ! i \<noteq> None \<longrightarrow> Sidebar (Some u) ! i = Some (links ! i)))
   \<and> (\<not> ui_simple_mode u \<longrightarrow> Sidebar (Some u) = map Some links)"
  by (simp add: Sidebar_def suppressed_def)

theorem sidebar_suppression_witness:
  "(2::nat) < length links \<and> key (links ! 2) = ''blocks'' \<and> ui_simple_mode simple_user
   \<and> ui_features simple_user ''blocks'' = Some False
   \<and> Sidebar (Some simple_user) ! 2 = None
   \<and> \<not> ui_simple_mode alice
   \<and> Sidebar (Some alice) = map Some links"
proof -
  have h: "(2::nat) < length links"
    by (simp add: links_def)
  have k: "key (links ! 2) = ''blocks''"
    by (simp add: links_def)
  have f1: "ui_simple_mode simple_user"
    by (simp add: simple_user_def)
  have f2: "ui_features simple_user ''blocks'' = Some False"
    by (simp add: simple_user_def)
  have f3: "\<not> ui_simple_mode alice"
    by (simp add: alice_def)
  have "Sidebar (Some simple_user) ! 2 = None \<longleftrightarrow>
      ui_simple_mode simple_user \<and> ui_features simple_user (key (links ! 2)) \<noteq> Some True"
    using sidebar_suppression [of simple_user] h by blast
  with k f1 f2 have a: "Sidebar (Some simple_user) ! 2 = None"
    by simp
  have b: "Sidebar (Some alice) = map Some links"
    using sidebar_suppression [of alice] f3 by blast
  from h k f1 f2 a f3 b show ?thesis
    by blast
qed

end
